theory Spec2Isabelle
  imports Main "HOL-Library.Multiset" "HOL-Library.Char_ord" "HOL-Library.List_Lexorder"
begin

section \<open>The data of \<^verbatim>\<open>markus/testing.py\<close>\<close>

text \<open>
  Modelled from the spec: the four constants \<^verbatim>\<open>INCR\<close>, \<^verbatim>\<open>GAUGE\<close>, \<^verbatim>\<open>TIMING\<close> and
  \<^verbatim>\<open>HISTOGRAM\<close> are imported from the package's \<^verbatim>\<open>__init__\<close> module, which is not among
  the sources. The spec makes the kind of a record a closed enumeration of four distinct
  values; only their distinctness is used below.
\<close>

datatype metric_kind = INCR | GAUGE | TIMING | HISTOGRAM

text \<open>
  The Python values that travel through the \<^verbatim>\<open>value\<close> parameter. \<^verbatim>\<open>None\<close> is a value
  of its own, integers are unbounded, and a string stands for any non-numeric value.
  On these three shapes Python's \<^verbatim>\<open>==\<close> is structural equality (an integer never
  equals a string, \<^verbatim>\<open>None\<close> equals only itself). Booleans and floats are left out:
  \<^verbatim>\<open>True == 1\<close> and \<^verbatim>\<open>1.0 == 1\<close> hold in Python, so they would need an equality of
  their own.
\<close>

datatype pyvalue = PyNone | PyInt int | PyStr string

text \<open>Python's \<^verbatim>\<open>bool(v)\<close> on these values.\<close>

fun truthy :: "pyvalue \<Rightarrow> bool" where
  "truthy PyNone = False"
| "truthy (PyInt n) = (n \<noteq> 0)"
| "truthy (PyStr s) = (s \<noteq> [])"

text \<open>
  The exceptions of the model: \<^verbatim>\<open>TypeError\<close> is what \<^verbatim>\<open>sorted(None)\<close> raises;
  \<open>Raised msg\<close> stands for any exception raised by the code that a scope wraps.
\<close>

datatype py_error = TypeError | Raised string

text \<open>
  A record is the tuple \<^verbatim>\<open>(fun_name, stat, value, tags)\<close> that \<^verbatim>\<open>_add_record\<close> builds.
  The tags are \<^verbatim>\<open>None\<close> (the default of every emission method) or a list of strings.
\<close>

type_synonym metric_record = "metric_kind \<times> string \<times> pyvalue \<times> string list option"

text \<open>
  A \<^verbatim>\<open>MetricsMock\<close> object has one attribute, the list \<^verbatim>\<open>records\<close>. Objects live in a
  heap addressed by references, so that \<^verbatim>\<open>self\<close> has an identity that can be stored in
  the registry's slot. The slot is \<^verbatim>\<open>None\<close> or a list of backends.
\<close>

type_synonym ref = nat

record MetricsMock =
  records :: "metric_record list"

record world =
  heap :: "ref \<Rightarrow> MetricsMock"
  active_backends :: "ref list option"

text \<open>
  The outcome of a call: the exception raised or the value returned, and the world
  after it.
\<close>

type_synonym 'a result = "(py_error + 'a) \<times> world"

text \<open>Sequencing of two calls: an exception of the first ends the computation.\<close>

definition then_do :: "'a result \<Rightarrow> ('a \<Rightarrow> world \<Rightarrow> 'b result) \<Rightarrow> 'b result" where
  "then_do m f = (case m of (Inl e, w) \<Rightarrow> (Inl e, w) | (Inr a, w) \<Rightarrow> f a w)"

text \<open>The assignment \<^verbatim>\<open>self.records = rs\<close>.\<close>

definition set_records :: "ref \<Rightarrow> metric_record list \<Rightarrow> world \<Rightarrow> world" where
  "set_records self rs w = w\<lparr>heap := (heap w)(self := (heap w self)\<lparr>records := rs\<rparr>)\<rparr>"

text \<open>
  Modelled from the spec: \<^verbatim>\<open>_override_metrics\<close> is imported from \<^verbatim>\<open>markus.main\<close>, which
  is not among the sources. The spec describes it as the single hook "set active backend
  to X", where X is a list holding a recorder or none: it overwrites the slot and
  returns nothing.
\<close>

definition override_metrics :: "ref list option \<Rightarrow> world \<Rightarrow> pyvalue result" where
  "override_metrics backends w = (Inr PyNone, w\<lparr>active_backends := backends\<rparr>)"

section \<open>The methods of \<^verbatim>\<open>MetricsMock\<close>\<close>

text \<open>\<^verbatim>\<open>__init__\<close>: \<^verbatim>\<open>self.records = []\<close>.\<close>

definition init :: "ref \<Rightarrow> world \<Rightarrow> pyvalue result" where
  "init self w = (Inr PyNone, set_records self [] w)"

text \<open>\<^verbatim>\<open>_add_record\<close>: \<^verbatim>\<open>self.records.append((fun_name, stat, value, tags))\<close>.\<close>

definition add_record ::
  "ref \<Rightarrow> metric_kind \<Rightarrow> string \<Rightarrow> pyvalue \<Rightarrow> string list option \<Rightarrow> world \<Rightarrow> pyvalue result" where
  "add_record self fun_name stat value tags w =
     (Inr PyNone, set_records self (records (heap w self) @ [(fun_name, stat, value, tags)]) w)"

text \<open>
  \<^verbatim>\<open>incr(self, stat, value=1, tags=None)\<close>. The optional \<^verbatim>\<open>value\<close> is \<open>None\<close> when the
  caller leaves it out and \<open>Some v\<close> when the caller passes \<open>v\<close> (which may be
  \<open>PyNone\<close>). For \<^verbatim>\<open>tags\<close> leaving the argument out and passing \<^verbatim>\<open>None\<close> are the same.
\<close>

definition incr :: "ref \<Rightarrow> string \<Rightarrow> pyvalue option \<Rightarrow> string list option \<Rightarrow> world \<Rightarrow> pyvalue result" where
  "incr self stat value tags w =
     then_do (add_record self INCR stat (case value of None \<Rightarrow> PyInt 1 | Some v \<Rightarrow> v) tags w)
       (\<lambda>_ w'. (Inr PyNone, w'))"

text \<open>\<^verbatim>\<open>gauge\<close>, \<^verbatim>\<open>timing\<close> and \<^verbatim>\<open>histogram\<close>: \<^verbatim>\<open>value\<close> is required.\<close>

definition gauge :: "ref \<Rightarrow> string \<Rightarrow> pyvalue \<Rightarrow> string list option \<Rightarrow> world \<Rightarrow> pyvalue result" where
  "gauge self stat value tags w =
     then_do (add_record self GAUGE stat value tags w) (\<lambda>_ w'. (Inr PyNone, w'))"

definition timing :: "ref \<Rightarrow> string \<Rightarrow> pyvalue \<Rightarrow> string list option \<Rightarrow> world \<Rightarrow> pyvalue result" where
  "timing self stat value tags w =
     then_do (add_record self TIMING stat value tags w) (\<lambda>_ w'. (Inr PyNone, w'))"

definition histogram :: "ref \<Rightarrow> string \<Rightarrow> pyvalue \<Rightarrow> string list option \<Rightarrow> world \<Rightarrow> pyvalue result" where
  "histogram self stat value tags w =
     then_do (add_record self HISTOGRAM stat value tags w) (\<lambda>_ w'. (Inr PyNone, w'))"

text \<open>
  \<^verbatim>\<open>__enter__\<close>: \<^verbatim>\<open>self.records = []\<close>, then \<^verbatim>\<open>_override_metrics([self])\<close>, then
  \<^verbatim>\<open>return self\<close>.
\<close>

definition enter :: "ref \<Rightarrow> world \<Rightarrow> ref result" where
  "enter self w =
     then_do (override_metrics (Some [self]) (set_records self [] w)) (\<lambda>_ w'. (Inr self, w'))"

text \<open>
  \<^verbatim>\<open>__exit__(self, exc_type, exc_value, traceback)\<close>: \<^verbatim>\<open>_override_metrics(None)\<close>, and
  the implicit \<^verbatim>\<open>return None\<close>. The three exception arguments are one optional
  exception here: \<open>None\<close> when the body ended normally.
\<close>

definition exit :: "ref \<Rightarrow> py_error option \<Rightarrow> world \<Rightarrow> pyvalue result" where
  "exit self exc w = then_do (override_metrics None w) (\<lambda>_ w'. (Inr PyNone, w'))"

text \<open>\<^verbatim>\<open>get_records\<close>: \<^verbatim>\<open>return self.records\<close>.\<close>

definition get_records :: "ref \<Rightarrow> world \<Rightarrow> (metric_record list) result" where
  "get_records self w = (Inr (records (heap w self)), w)"

text \<open>
  The four closures of \<^verbatim>\<open>filter_records\<close>. A criterion that \<^verbatim>\<open>is None\<close> matches
  everything. \<^verbatim>\<open>match_tags\<close> sorts both tag lists; \<^verbatim>\<open>sorted\<close> of a list of strings
  is the sorted permutation in the lexicographic order of the characters, and
  \<^verbatim>\<open>sorted(None)\<close> raises \<^verbatim>\<open>TypeError\<close>.
\<close>

definition match_fun_name :: "metric_kind option \<Rightarrow> metric_kind \<Rightarrow> bool" where
  "match_fun_name fun_name record_fun_name \<longleftrightarrow> fun_name = None \<or> fun_name = Some record_fun_name"

definition match_stat :: "string option \<Rightarrow> string \<Rightarrow> bool" where
  "match_stat stat record_stat \<longleftrightarrow> stat = None \<or> stat = Some record_stat"

definition match_value :: "pyvalue \<Rightarrow> pyvalue \<Rightarrow> bool" where
  "match_value value record_value \<longleftrightarrow> value = PyNone \<or> value = record_value"

definition match_tags :: "string list option \<Rightarrow> string list option \<Rightarrow> py_error + bool" where
  "match_tags tags record_tags =
     (case tags of
        None \<Rightarrow> Inr True
      | Some ts \<Rightarrow>
          (case record_tags of
             None \<Rightarrow> Inl TypeError
           | Some rts \<Rightarrow> Inr (sort ts = sort rts)))"

text \<open>
  The condition of the list comprehension. Python's \<^verbatim>\<open>and\<close> stops at the first false
  operand, so \<^verbatim>\<open>match_tags\<close> runs only for a record that passed the other three.
\<close>

definition matches ::
  "metric_kind option \<Rightarrow> string option \<Rightarrow> pyvalue \<Rightarrow> string list option \<Rightarrow> metric_record
     \<Rightarrow> py_error + bool" where
  "matches fun_name stat value tags record =
     (case record of (record_fun_name, record_stat, record_value, record_tags) \<Rightarrow>
        if match_fun_name fun_name record_fun_name \<and> match_stat stat record_stat
           \<and> match_value value record_value
        then match_tags tags record_tags
        else Inr False)"

text \<open>
  The list comprehension \<^verbatim>\<open>[record for record in rs if cond(record)]\<close>: the records are
  visited in order, and an exception of the condition ends the whole comprehension.
\<close>

fun comprehension ::
  "(metric_record \<Rightarrow> py_error + bool) \<Rightarrow> metric_record list \<Rightarrow> py_error + metric_record list" where
  "comprehension cond [] = Inr []"
| "comprehension cond (record # rs) =
     (case cond record of
        Inl e \<Rightarrow> Inl e
      | Inr b \<Rightarrow>
          (case comprehension cond rs of
             Inl e \<Rightarrow> Inl e
           | Inr out \<Rightarrow> Inr (if b then record # out else out)))"

definition filter_records ::
  "ref \<Rightarrow> metric_kind option \<Rightarrow> string option \<Rightarrow> pyvalue \<Rightarrow> string list option \<Rightarrow> world
     \<Rightarrow> (metric_record list) result" where
  "filter_records self fun_name stat value tags w =
     then_do (get_records self w)
       (\<lambda>rs w'. (comprehension (matches fun_name stat value tags) rs, w'))"

text \<open>\<^verbatim>\<open>has_record\<close>: \<^verbatim>\<open>bool\<close> of the list that \<^verbatim>\<open>filter_records\<close> returns.\<close>

definition has_record ::
  "ref \<Rightarrow> metric_kind option \<Rightarrow> string option \<Rightarrow> pyvalue \<Rightarrow> string list option \<Rightarrow> world
     \<Rightarrow> bool result" where
  "has_record self fun_name stat value tags w =
     then_do (filter_records self fun_name stat value tags w) (\<lambda>rs w'. (Inr (rs \<noteq> []), w'))"

text \<open>\<^verbatim>\<open>clear_records\<close>: \<^verbatim>\<open>self.records = []\<close>.\<close>

definition clear_records :: "ref \<Rightarrow> world \<Rightarrow> pyvalue result" where
  "clear_records self w = (Inr PyNone, set_records self [] w)"

section \<open>Sequences of emissions and scopes\<close>

text \<open>One emission call on a recorder, and a sequence of them run in order.\<close>

datatype emission =
    Incr string "pyvalue option" "string list option"
  | Gauge string pyvalue "string list option"
  | Timing string pyvalue "string list option"
  | Histogram string pyvalue "string list option"

fun emit :: "ref \<Rightarrow> emission \<Rightarrow> world \<Rightarrow> pyvalue result" where
  "emit self (Incr stat value tags) w = incr self stat value tags w"
| "emit self (Gauge stat value tags) w = gauge self stat value tags w"
| "emit self (Timing stat value tags) w = timing self stat value tags w"
| "emit self (Histogram stat value tags) w = histogram self stat value tags w"

fun emit_all :: "ref \<Rightarrow> emission list \<Rightarrow> world \<Rightarrow> pyvalue result" where
  "emit_all self [] w = (Inr PyNone, w)"
| "emit_all self (c # cs) w = then_do (emit self c w) (\<lambda>_ w'. emit_all self cs w')"

text \<open>The record that an emission call is expected to leave, with the default filled in.\<close>

fun record_of :: "emission \<Rightarrow> metric_record" where
  "record_of (Incr stat value tags) = (INCR, stat, (case value of None \<Rightarrow> PyInt 1 | Some v \<Rightarrow> v), tags)"
| "record_of (Gauge stat value tags) = (GAUGE, stat, value, tags)"
| "record_of (Timing stat value tags) = (TIMING, stat, value, tags)"
| "record_of (Histogram stat value tags) = (HISTOGRAM, stat, value, tags)"

text \<open>
  Python's statement \<^verbatim>\<open>with mm as target: body\<close>, as the docstring of the class uses
  it. \<^verbatim>\<open>__enter__\<close> runs first; the body runs with its result; \<^verbatim>\<open>__exit__\<close> runs on
  both ways out of the body. After an exception of the body, the exception is
  swallowed when \<^verbatim>\<open>__exit__\<close> returns a true value and raised again otherwise.
\<close>

definition with_scope :: "ref \<Rightarrow> (ref \<Rightarrow> world \<Rightarrow> unit result) \<Rightarrow> world \<Rightarrow> unit result" where
  "with_scope mm body w =
     then_do (enter mm w) (\<lambda>target w1.
       case body target w1 of
         (Inr u, w2) \<Rightarrow> then_do (exit mm None w2) (\<lambda>_ w3. (Inr (), w3))
       | (Inl e, w2) \<Rightarrow>
           then_do (exit mm (Some e) w2)
             (\<lambda>r w3. if truthy r then (Inr (), w3) else (Inl e, w3)))"

text \<open>A world in which no recorder holds a record and no backend is installed.\<close>

definition empty_world :: world where
  "empty_world = \<lparr>heap = (\<lambda>_. \<lparr>records = []\<rparr>), active_backends = None\<rparr>"

section \<open>What the spec asks of a match\<close>

text \<open>
  The spec's reading of the tags of a record: an unordered collection of labels, where
  absent tags count as the empty collection.
\<close>

definition spec_tag_collection :: "string list option \<Rightarrow> string multiset" where
  "spec_tag_collection tags = (case tags of None \<Rightarrow> {#} | Some ts \<Rightarrow> mset ts)"

text \<open>
  The spec's matching rule, in its words: a record matches when it agrees with every
  supplied criterion, a criterion left unspecified matches every record, and the tags
  agree when both collections hold the same elements.
\<close>

definition spec_matches ::
  "metric_kind option \<Rightarrow> string option \<Rightarrow> pyvalue \<Rightarrow> string list option \<Rightarrow> metric_record
     \<Rightarrow> bool" where
  "spec_matches fun_name stat value tags record =
     (case record of (k, s, v, t) \<Rightarrow>
        (fun_name = None \<or> fun_name = Some k) \<and> (stat = None \<or> stat = Some s)
        \<and> (value = PyNone \<or> value = v)
        \<and> (tags = None \<or> spec_tag_collection tags = spec_tag_collection t))"

text \<open>
  A record without tags that agrees with the kind, stat and value criteria: the records
  for which the comprehension goes on to compare tags and finds none to sort.
\<close>

definition reaches_null_tags ::
  "metric_kind option \<Rightarrow> string option \<Rightarrow> pyvalue \<Rightarrow> metric_record \<Rightarrow> bool" where
  "reaches_null_tags fun_name stat value record =
     (case record of (k, s, v, t) \<Rightarrow>
        (fun_name = None \<or> fun_name = Some k) \<and> (stat = None \<or> stat = Some s)
        \<and> (value = PyNone \<or> value = v) \<and> t = None)"

section \<open>Basic facts about the operations\<close>

lemma records_set_records [simp]: "records (heap (set_records self rs w) self) = rs"
  by (simp add: set_records_def)

lemma active_set_records [simp]: "active_backends (set_records self rs w) = active_backends w"
  by (simp add: set_records_def)

lemma heap_set_records:
  "heap (set_records self rs w) = (heap w)(self := (heap w self)\<lparr>records := rs\<rparr>)"
  by (simp add: set_records_def)

text \<open>Two lists of strings sort to the same list exactly when they are permutations.\<close>

lemma sort_eq_iff_mset: "sort xs = sort ys \<longleftrightarrow> mset xs = mset ys"
proof
  assume "sort xs = sort ys"
  then have "mset (sort xs) = mset (sort ys)" by simp
  then show "mset xs = mset ys" by simp
next
  assume "mset xs = mset ys"
  then show "sort xs = sort ys"
    by (simp add: properties_for_sort)
qed

text \<open>Every emission is one append of the expected record and returns \<^verbatim>\<open>None\<close>.\<close>

lemma emit_eq:
  "emit self c w = (Inr PyNone, set_records self (records (heap w self) @ [record_of c]) w)"
  by (cases c)
     (simp_all add: incr_def gauge_def timing_def histogram_def add_record_def then_do_def)

lemma emit_all_eq:
  "emit_all self cs w =
     (Inr PyNone, set_records self (records (heap w self) @ map record_of cs) w)"
proof (induction cs arbitrary: w)
  case Nil
  show ?case by (simp add: set_records_def)
next
  case (Cons c cs)
  show ?case
    by (simp add: emit_eq then_do_def Cons.IH) (simp add: set_records_def)
qed

lemma enter_eq:
  "enter self w = (Inr self, (set_records self [] w)\<lparr>active_backends := Some [self]\<rparr>)"
  by (simp add: enter_def override_metrics_def then_do_def)

lemma exit_eq: "exit self exc w = (Inr PyNone, w\<lparr>active_backends := None\<rparr>)"
  by (simp add: exit_def override_metrics_def then_do_def)

text \<open>
  The condition of the comprehension either raises \<^verbatim>\<open>TypeError\<close>, for a record without
  tags that reached the tag comparison, or decides the spec's matching rule.
\<close>

lemma matches_cases:
  "matches fun_name stat value tags r =
     (if tags \<noteq> None \<and> reaches_null_tags fun_name stat value r then Inl TypeError
      else Inr (spec_matches fun_name stat value tags r))"
  by (cases r; cases tags)
     (auto simp: matches_def match_tags_def match_fun_name_def match_stat_def match_value_def
        reaches_null_tags_def spec_matches_def spec_tag_collection_def sort_eq_iff_mset
        split: option.splits)

text \<open>
  A comprehension whose condition raises one fixed exception on the bad elements: it
  raises when the list holds a bad element and filters otherwise.
\<close>

lemma comprehension_cases:
  assumes "\<And>r. cond r = (if bad r then Inl err else Inr (good r))"
  shows "comprehension cond rs = (if \<exists>r\<in>set rs. bad r then Inl err else Inr (filter good rs))"
  by (induction rs) (auto simp: assms)

lemma filter_records_cases:
  "filter_records self fun_name stat value tags w =
     (if tags \<noteq> None
         \<and> (\<exists>r \<in> set (records (heap w self)). reaches_null_tags fun_name stat value r)
      then Inl TypeError
      else Inr (filter (spec_matches fun_name stat value tags) (records (heap w self))), w)"
  unfolding filter_records_def get_records_def then_do_def
  by (simp add:
        comprehension_cases [where cond = "matches fun_name stat value tags", OF matches_cases])

section \<open>The claims\<close>

text \<open>
  Claim C1. The spec says that \<^verbatim>\<open>filter_records\<close> never fails and that a record without
  tags is matched like the same record with an empty tag collection. The code does not
  do this: after a single \<^verbatim>\<open>incr(stat)\<close> (tags left at their default \<^verbatim>\<open>None\<close>), every
  call \<^verbatim>\<open>filter_records(tags=ts)\<close> raises \<^verbatim>\<open>TypeError\<close>, because \<^verbatim>\<open>sorted(None)\<close> is
  evaluated; whereas the same record emitted with the empty tag list is returned by
  \<^verbatim>\<open>filter_records(tags=[])\<close>.
\<close>

theorem filter_records_null_tags_raises:
  "fst (filter_records self None None PyNone (Some ts)
         (snd (incr self stat None None (snd (init self w))))) = Inl TypeError
   \<and> fst (filter_records self None None PyNone (Some [])
         (snd (incr self stat None (Some []) (snd (init self w)))))
       = Inr [(INCR, stat, PyInt 1, Some [])]"
  by (simp add: filter_records_def get_records_def then_do_def incr_def add_record_def init_def
        matches_def match_tags_def match_fun_name_def match_stat_def match_value_def)

text \<open>
  Claim C2. The spec says that, for every record and every supplied tags criterion, the
  record matches on the tags dimension exactly when the two tag collections hold the
  same elements, whatever their order. For a record that carries a tag list the code
  does this: the comparison returns whether the two lists are permutations of each
  other, so tags \<^verbatim>\<open>a, b\<close> match the query \<^verbatim>\<open>["b", "a"]\<close> and not the query \<^verbatim>\<open>["a"]\<close>.
  For a record without tags the code does not: the comparison raises \<^verbatim>\<open>TypeError\<close>
  for every supplied criterion, where the spec reads absent tags as the empty
  collection (a match for the query \<^verbatim>\<open>[]\<close>, no match for any other). The last line is
  the failing call: after \<^verbatim>\<open>incr("b", tags=["x"])\<close> and \<^verbatim>\<open>incr("a")\<close>,
  \<^verbatim>\<open>filter_records(tags=["x"])\<close> raises instead of returning the first record.
\<close>

theorem match_tags_exact_but_raises_without_tags:
  "match_tags (Some ts) (Some rts)
     = Inr (spec_tag_collection (Some ts) = spec_tag_collection (Some rts))
   \<and> match_tags (Some ts) (Some rts) = Inr (mset ts = mset rts)
   \<and> match_tags (Some [''b'', ''a'']) (Some [''a'', ''b'']) = Inr True
   \<and> match_tags (Some [''a'']) (Some [''a'', ''b'']) = Inr False
   \<and> match_tags (Some ts) None = Inl TypeError
   \<and> match_tags (Some []) None = Inl TypeError
   \<and> spec_tag_collection (Some []) = spec_tag_collection None
   \<and> fst (filter_records 0 None None PyNone (Some [''x''])
         (snd (incr 0 ''a'' None None
           (snd (incr 0 ''b'' None (Some [''x'']) (snd (init 0 empty_world)))))))
       = Inl TypeError"
proof -
  have with_tags: "match_tags (Some ts) (Some rts) = Inr (mset ts = mset rts)"
    by (simp add: match_tags_def sort_eq_iff_mset)
  have without_tags: "match_tags (Some us) None = Inl TypeError" for us
    by (simp add: match_tags_def)
  have failing:
    "fst (filter_records 0 None None PyNone (Some [''x''])
       (snd (incr 0 ''a'' None None
         (snd (incr 0 ''b'' None (Some [''x'']) (snd (init 0 empty_world)))))))
     = Inl TypeError"
    by (simp add: filter_records_def get_records_def then_do_def incr_def add_record_def
          init_def matches_def match_tags_def match_fun_name_def match_stat_def
          match_value_def sort_eq_iff_mset)
  have swapped: "match_tags (Some [''b'', ''a'']) (Some [''a'', ''b'']) = Inr True"
    by (simp add: match_tags_def sort_eq_iff_mset)
  have subset: "match_tags (Some [''a'']) (Some [''a'', ''b'']) = Inr False"
    by (simp add: match_tags_def sort_eq_iff_mset)
  have spec_with_tags:
    "match_tags (Some ts) (Some rts)
       = Inr (spec_tag_collection (Some ts) = spec_tag_collection (Some rts))"
    by (simp add: with_tags spec_tag_collection_def)
  have spec_empty: "spec_tag_collection (Some []) = spec_tag_collection None"
    by (simp add: spec_tag_collection_def)
  from spec_with_tags with_tags swapped subset without_tags [of ts] without_tags [of "[]"]
    spec_empty failing
  show ?thesis by (intro conjI)
qed

text \<open>
  Claim C3. The spec says that \<^verbatim>\<open>filter_records\<close> returns, for every recorded sequence
  and every combination of criteria, exactly the records that match all supplied
  criteria, in emission order. The code does so with one exception. When a tags
  criterion is supplied and some record without tags agrees with the kind, stat and
  value criteria, the call raises \<^verbatim>\<open>TypeError\<close>; in every other case it returns the
  records of \<^verbatim>\<open>get_records\<close> filtered by the spec's matching rule and leaves the recorder
  unchanged. So without a tags criterion it never raises, with no criterion at all it
  returns all records, and with only a stat it returns the records of that stat. The
  last line is the failing call: after \<^verbatim>\<open>incr("a", tags=["x"])\<close> and \<^verbatim>\<open>incr("a")\<close>,
  \<^verbatim>\<open>filter_records(stat="a", tags=["x"])\<close> raises instead of returning the first record.
\<close>

theorem filter_records_conjunctive_or_raises:
  "filter_records self fun_name stat value tags w =
     (if tags \<noteq> None
         \<and> (\<exists>r \<in> set (records (heap w self)). reaches_null_tags fun_name stat value r)
      then Inl TypeError
      else Inr (filter (spec_matches fun_name stat value tags) (records (heap w self))), w)
   \<and> filter_records self fun_name stat value None w =
       (Inr (filter (spec_matches fun_name stat value None) (records (heap w self))), w)
   \<and> filter_records self None None PyNone None w = get_records self w
   \<and> filter_records self None (Some S) PyNone None w =
       (Inr (filter (\<lambda>(k, s, v, t). s = S) (records (heap w self))), w)
   \<and> fst (filter_records 0 None (Some ''a'') PyNone (Some [''x''])
         (snd (incr 0 ''a'' None None
           (snd (incr 0 ''a'' None (Some [''x'']) (snd (init 0 empty_world)))))))
       = Inl TypeError"
proof -
  have all: "filter (spec_matches None None PyNone None) rs = rs" for rs
    by (induction rs) (auto simp: spec_matches_def)
  have only_stat: "spec_matches None (Some S) PyNone None = (\<lambda>(k, s, v, t). s = S)"
    by (auto simp: spec_matches_def fun_eq_iff)
  have failing:
    "fst (filter_records 0 None (Some ''a'') PyNone (Some [''x''])
       (snd (incr 0 ''a'' None None
         (snd (incr 0 ''a'' None (Some [''x'']) (snd (init 0 empty_world)))))))
     = Inl TypeError"
    by (simp add: filter_records_cases reaches_null_tags_def incr_def add_record_def
          init_def then_do_def)
  show ?thesis
    using failing by (simp add: filter_records_cases all only_stat get_records_def)
qed

text \<open>
  Claim C4. Each emission call appends exactly one record at the end of the recorder's
  sequence. After a scope entry followed by any sequence of emission calls,
  \<^verbatim>\<open>get_records\<close> returns the records of these calls in call order (and, from any
  starting state, the earlier records followed by them). \<^verbatim>\<open>get_records\<close> leaves the
  world unchanged, so a second call returns the same.
\<close>

theorem get_records_call_order:
  "fst (emit self c w) = Inr PyNone
   \<and> records (heap (snd (emit self c w)) self) = records (heap w self) @ [record_of c]
   \<and> fst (get_records self (snd (emit_all self cs (snd (enter self w)))))
       = Inr (map record_of cs)
   \<and> fst (get_records self (snd (emit_all self cs w)))
       = Inr (records (heap w self) @ map record_of cs)
   \<and> snd (get_records self w) = w
   \<and> get_records self (snd (get_records self w)) = get_records self w"
  by (simp add: emit_eq emit_all_eq enter_eq get_records_def set_records_def)

text \<open>
  Claim C5. \<^verbatim>\<open>has_record\<close> is \<^verbatim>\<open>bool\<close> of \<^verbatim>\<open>filter_records\<close> with the same criteria: it
  returns true exactly when \<^verbatim>\<open>filter_records\<close> returns a non-empty list, false exactly
  when it returns the empty list, and raises exactly the exception that
  \<^verbatim>\<open>filter_records\<close> raises. Neither call changes the world.
\<close>

theorem has_record_iff_filter_nonempty:
  "(fst (has_record self fun_name stat value tags w) = Inr True
      \<longleftrightarrow> (\<exists>rs. fst (filter_records self fun_name stat value tags w) = Inr rs \<and> rs \<noteq> []))
   \<and> (fst (has_record self fun_name stat value tags w) = Inr False
      \<longleftrightarrow> fst (filter_records self fun_name stat value tags w) = Inr [])
   \<and> (fst (has_record self fun_name stat value tags w) = Inl e
      \<longleftrightarrow> fst (filter_records self fun_name stat value tags w) = Inl e)
   \<and> snd (has_record self fun_name stat value tags w) = w
   \<and> snd (filter_records self fun_name stat value tags w) = w"
  by (auto simp: has_record_def filter_records_def get_records_def then_do_def
        split: sum.splits prod.splits)

text \<open>
  Claim C6. Scope entry first empties the recorder's sequence and then writes the slot:
  the world after \<^verbatim>\<open>__enter__\<close> is the world after the reset with the slot overwritten by
  the list holding this recorder alone, whatever the slot held before (another
  recorder included). \<^verbatim>\<open>get_records\<close> is empty right after an entry, also when the entry
  follows an earlier scope of the same recorder that collected records and was left.
\<close>

theorem enter_resets_then_installs:
  "enter self w = (Inr self, snd (override_metrics (Some [self]) (set_records self [] w)))
   \<and> fst (get_records self (snd (enter self w))) = Inr []
   \<and> active_backends (snd (enter self w)) = Some [self]
   \<and> active_backends (snd (enter self (snd (enter other w)))) = Some [self]
   \<and> fst (get_records self (snd (exit self exc (snd (emit_all self cs (snd (enter self w)))))))
       = Inr (map record_of cs)
   \<and> fst (get_records self
        (snd (enter self (snd (exit self exc (snd (emit_all self cs (snd (enter self w)))))))))
       = Inr []"
  by (simp add: enter_eq exit_eq emit_all_eq get_records_def override_metrics_def
        set_records_def)

text \<open>
  Claim C7. \<^verbatim>\<open>__exit__\<close> returns \<^verbatim>\<open>None\<close>, which is not a true value, so it swallows no
  exception; it sets the slot to "no backend" whatever the slot held (also when another
  recorder had been installed since), and it changes nothing in the heap, so the
  collected records stay readable. For the whole \<^verbatim>\<open>with\<close> statement: its outcome is the
  outcome of the body, an exception of the body included, and the world after it is
  the world the body left with the slot cleared.
\<close>

theorem exit_unregisters_keeps_records:
  "fst (exit self exc w) = Inr PyNone
   \<and> \<not> truthy PyNone
   \<and> active_backends (snd (exit self exc w)) = None
   \<and> active_backends (snd (exit self exc (snd (enter other w)))) = None
   \<and> heap (snd (exit self exc w)) = heap w
   \<and> get_records self (snd (exit self exc w)) = (fst (get_records self w), snd (exit self exc w))
   \<and> with_scope self body w =
       (fst (body self (snd (enter self w))),
        (snd (body self (snd (enter self w))))\<lparr>active_backends := None\<rparr>)"
  by (simp add: exit_eq get_records_def with_scope_def enter_eq then_do_def
        split: prod.splits sum.splits)

text \<open>
  Claim C8. Each of the four emission methods returns \<^verbatim>\<open>None\<close> and raises nothing, for
  every stat string, every value (numeric or not) and every tags argument, \<^verbatim>\<open>None\<close>
  included; its whole effect is to append the tuple of its kind and its three arguments,
  unchanged, to the recorder's sequence. So no sequence of emission calls raises, and
  an empty stat with a non-numeric value and no tags is stored as it is.
\<close>

theorem emission_total:
  "incr self stat (Some value) tags w =
     (Inr PyNone, set_records self (records (heap w self) @ [(INCR, stat, value, tags)]) w)
   \<and> gauge self stat value tags w =
     (Inr PyNone, set_records self (records (heap w self) @ [(GAUGE, stat, value, tags)]) w)
   \<and> timing self stat value tags w =
     (Inr PyNone, set_records self (records (heap w self) @ [(TIMING, stat, value, tags)]) w)
   \<and> histogram self stat value tags w =
     (Inr PyNone, set_records self (records (heap w self) @ [(HISTOGRAM, stat, value, tags)]) w)
   \<and> fst (emit_all self cs w) = Inr PyNone
   \<and> records (heap (snd (gauge self [] (PyStr ''n/a'') None w)) self)
       = records (heap w self) @ [(GAUGE, [], PyStr ''n/a'', None)]"
  by (simp add: incr_def gauge_def timing_def histogram_def add_record_def then_do_def
        emit_all_eq)

text \<open>
  Claim C9. \<^verbatim>\<open>incr\<close> called without a value appends exactly one record: kind
  \<^verbatim>\<open>INCR\<close>, the given stat, the value 1 and the given tags.
\<close>

theorem incr_default_value:
  "incr self stat None tags w =
     (Inr PyNone, set_records self (records (heap w self) @ [(INCR, stat, PyInt 1, tags)]) w)
   \<and> records (heap (snd (incr self stat None tags w)) self)
       = records (heap w self) @ [(INCR, stat, PyInt 1, tags)]"
  by (simp add: incr_def add_record_def then_do_def)

text \<open>
  Claim C10. \<^verbatim>\<open>clear_records\<close> empties the recorder's sequence at once and changes
  nothing else: the slot is as before, and the heap differs only in the records of this
  recorder. In particular the recorder is still installed after a clear inside a scope,
  and still not installed after a clear outside one.
\<close>

theorem clear_records_frame:
  "fst (clear_records self w) = Inr PyNone
   \<and> fst (get_records self (snd (clear_records self w))) = Inr []
   \<and> active_backends (snd (clear_records self w)) = active_backends w
   \<and> heap (snd (clear_records self w)) = (heap w)(self := (heap w self)\<lparr>records := []\<rparr>)
   \<and> active_backends (snd (clear_records self (snd (enter self w)))) = Some [self]
   \<and> active_backends (snd (clear_records self (snd (exit self exc w)))) = None"
  by (simp add: clear_records_def get_records_def enter_eq exit_eq heap_set_records)

end
